theory Spec2Isabelle
  imports Complex_Main "HOL-Library.Multiset"
begin

section \<open>Domain model (internal/core/domain/location.go)\<close>

text \<open>
  Coordinates and distances are reals: every finite \<^verbatim>\<open>float64\<close> is one, and NaN and the
  infinities (which JSON cannot carry and the engine does not return) are left out. A
  \<^verbatim>\<open>time.Time\<close> is the instant it denotes, counted in microseconds as the timestamp
  column stores it.
\<close>

record Location =
  ID :: string
  Name :: string
  Slug :: string
  Latitude :: real
  Longitude :: real
  CreatedAt :: int

record RegisterLocationRequest =
  req_Name :: string
  req_Latitude :: real
  req_Longitude :: real

text \<open>\<^verbatim>\<open>NearestLocation\<close> embeds \<^verbatim>\<open>Location\<close> and adds the distance in meters.\<close>

record NearestLocation =
  Location :: Location
  Distance :: real

text \<open>
  Modelled from the spec: domain/error.go (the \<^verbatim>\<open>CError\<close> interface, \<^verbatim>\<open>NewCError\<close>,
  \<^verbatim>\<open>NewInternalCError\<close>, \<^verbatim>\<open>NewBadRequestCError\<close> and the package-level values
  \<^verbatim>\<open>ErrInternal\<close>, \<^verbatim>\<open>ErrDataNotFound\<close>, \<^verbatim>\<open>ErrConflictingData\<close>) is not under src/.
  The spec's error kinds are InternalError, NotFoundError, ConflictError and
  ValidationError; the service tells them apart by \<^verbatim>\<open>Code()\<close>, comparing with 500, 404
  and 409, and the handler tests expect the statuses 404, 409 and 400. The three
  package-level values are kept as opaque constructors: only their code is known.
\<close>

datatype CError =
    ErrInternal
  | ErrDataNotFound
  | ErrConflictingData
  | NewCError int string

fun Code :: "CError \<Rightarrow> int" where
  "Code ErrInternal = 500"
| "Code ErrDataNotFound = 404"
| "Code ErrConflictingData = 409"
| "Code (NewCError c m) = c"

definition NewInternalCError :: "string \<Rightarrow> CError" where
  "NewInternalCError m = NewCError 500 m"

definition NewBadRequestCError :: "string \<Rightarrow> CError" where
  "NewBadRequestCError m = NewCError 400 m"

text \<open>
  A Go slice is either \<^verbatim>\<open>nil\<close> or refers to an array; both have a length, and
  \<^verbatim>\<open>append\<close> to the \<^verbatim>\<open>nil\<close> slice allocates.
\<close>

datatype 'a slice = nil_slice | Slice "'a list"

fun append_slice :: "'a slice \<Rightarrow> 'a \<Rightarrow> 'a slice" where
  "append_slice nil_slice x = Slice [x]"
| "append_slice (Slice xs) x = Slice (xs @ [x])"

fun elems :: "'a slice \<Rightarrow> 'a list" where
  "elems nil_slice = []"
| "elems (Slice xs) = xs"

definition len :: "'a slice \<Rightarrow> nat" where
  "len s = length (elems s)"

section \<open>The storage engine behind \<^verbatim>\<open>postgres.DB\<close>\<close>

text \<open>
  The geography column holds the point made from (longitude, latitude).
\<close>

type_synonym geography = "real \<times> real"

definition ST_MakePoint :: "real \<Rightarrow> real \<Rightarrow> geography" where
  "ST_MakePoint x y = (x, y)"

text \<open>
  Modelled from the spec: \<^verbatim>\<open>ST_Distance\<close> belongs to the storage engine and is not under
  src/. By the spec's data model a distance is a non-negative real number of meters,
  computed by the store's spatial engine at query time. The type \<open>meters\<close> holds these
  values; the engine's \<^verbatim>\<open>ST_Distance\<close> is a parameter of everything below and returns
  one of them for every two geographies.
\<close>

typedef meters = "{d :: real. 0 \<le> d}"
  morphisms meters_value Meters
  by auto

record location_row =
  columns :: Location
  geo :: geography

text \<open>
  The state of the database: the rows of table \<^verbatim>\<open>locations\<close> in heap order, and the
  values the column defaults of \<^verbatim>\<open>id\<close> and \<^verbatim>\<open>created_at\<close> produce in each INSERT
  (the n-th INSERT draws \<open>defaults n\<close>; \<open>drawn\<close> counts the INSERTs so far). The
  defaults are arbitrary, so every statement below holds whatever the engine draws.
\<close>

record DB =
  locations :: "location_row list"
  defaults :: "nat \<Rightarrow> string \<times> int"
  drawn :: nat

text \<open>
  What the driver hands back instead of a row: a server error with its SQLSTATE and
  text (\<^verbatim>\<open>*pgconn.PgError\<close>), \<^verbatim>\<open>pgx.ErrNoRows\<close>, or any other failure. The
  repository functions have a branch for each; the engine below answers every statement,
  so the only errors it produces are the unique violation and the absence of a row.
\<close>

datatype pgx_error = PgError string string | ErrNoRows | OtherError string

text \<open>\<^verbatim>\<open>DB.ErrorCode\<close> (storage/postgres/db.go).\<close>

fun ErrorCode :: "pgx_error \<Rightarrow> string" where
  "ErrorCode (PgError c m) = c"
| "ErrorCode ErrNoRows = ''0000''"
| "ErrorCode (OtherError m) = ''0000''"

fun Error :: "pgx_error \<Rightarrow> string" where
  "Error (PgError c m) = m"
| "Error ErrNoRows = ''no rows in result set''"
| "Error (OtherError m) = m"

text \<open>
  Modelled from the spec: the migration that declares table \<^verbatim>\<open>locations\<close> is not under
  src/. By the spec's data model \<^verbatim>\<open>id\<close> is a unique identifier assigned by the store,
  \<^verbatim>\<open>created_at\<close> is set by the store at insertion, and \<^verbatim>\<open>name\<close> and \<^verbatim>\<open>slug\<close> are unique;
  a violated uniqueness constraint is SQLSTATE 23505 and leaves the table as it was.
\<close>

definition violates_unique :: "location_row list \<Rightarrow> Location \<Rightarrow> bool" where
  "violates_unique rows r =
     (\<exists>x \<in> set rows. ID (columns x) = ID r \<or> Name (columns x) = Name r
                      \<or> Slug (columns x) = Slug r)"

text \<open>
  \<^verbatim>\<open>INSERT INTO locations (name, slug, latitude, longitude, geo)
  VALUES ($1, $2, $3, $4, ST_MakePoint($4, $3)::geography)
  RETURNING id, name, slug, latitude, longitude, created_at\<close>
\<close>

definition insert_returning ::
  "DB \<Rightarrow> string \<Rightarrow> string \<Rightarrow> real \<Rightarrow> real \<Rightarrow> (pgx_error + Location) \<times> DB" where
  "insert_returning db a1 a2 a3 a4 =
     (let (uid, ts) = defaults db (drawn db);
          r = \<lparr>ID = uid, Name = a1, Slug = a2, Latitude = a3, Longitude = a4,
               CreatedAt = ts\<rparr>;
          db1 = db\<lparr>drawn := Suc (drawn db)\<rparr>
      in if violates_unique (locations db) r
         then (Inl (PgError ''23505''
                 ''ERROR: duplicate key value violates unique constraint (SQLSTATE 23505)''),
               db1)
         else (Inr r,
               db1\<lparr>locations := locations db @ [\<lparr>columns = r, geo = ST_MakePoint a4 a3\<rparr>]\<rparr>))"

text \<open>
  \<^verbatim>\<open>SELECT ... FROM locations WHERE <cond> LIMIT 1\<close>, scanned as one row. SQL leaves
  open which of several matching rows is returned; the first in heap order is taken.
\<close>

definition select_one :: "DB \<Rightarrow> (Location \<Rightarrow> bool) \<Rightarrow> pgx_error + Location" where
  "select_one db cond =
     (case filter cond (map columns (locations db)) of
        [] \<Rightarrow> Inl ErrNoRows
      | r # rest \<Rightarrow> Inr r)"

text \<open>
  \<^verbatim>\<open>SELECT ... FROM locations ORDER BY created_at DESC\<close>; rows of equal
  \<^verbatim>\<open>created_at\<close>, whose order SQL leaves open, stay in heap order.
\<close>

definition select_ordered :: "DB \<Rightarrow> Location list" where
  "select_ordered db = sort_key (\<lambda>r. - CreatedAt r) (map columns (locations db))"

text \<open>\<^verbatim>\<open>DELETE FROM locations WHERE <cond>\<close>.\<close>

definition delete_where :: "DB \<Rightarrow> (Location \<Rightarrow> bool) \<Rightarrow> DB" where
  "delete_where db cond =
     db\<lparr>locations := filter (\<lambda>x. \<not> cond (columns x)) (locations db)\<rparr>"

text \<open>
  \<^verbatim>\<open>SELECT ..., ST_Distance(geo, ST_MakePoint($1, $2)::geography) AS distance_meters
  FROM locations ORDER BY distance_meters LIMIT 1\<close>: a row of least distance, the
  first in heap order among several.
\<close>

definition select_nearest ::
  "(geography \<Rightarrow> geography \<Rightarrow> meters) \<Rightarrow> DB \<Rightarrow> real \<Rightarrow> real \<Rightarrow> pgx_error + NearestLocation" where
  "select_nearest ST_Distance db a1 a2 =
     (if locations db = [] then Inl ErrNoRows
      else (let distance_meters =
                  (\<lambda>x. meters_value (ST_Distance (geo x) (ST_MakePoint a1 a2)));
                x = arg_min_list distance_meters (locations db)
            in Inr \<lparr>Location = columns x, Distance = distance_meters x\<rparr>))"

section \<open>The repository (storage/postgres/repository/location.go)\<close>

text \<open>
  \<^verbatim>\<open>slug.Make\<close> comes from the library github.com/gosimple/slug; the repository
  functions take it as the parameter \<open>slug_Make\<close>.
  The queries are fixed texts, so the query builder's \<^verbatim>\<open>ToSql\<close> does not fail and its
  error branch is left out; every other branch of the functions is kept.
\<close>

definition LocationRepository_CreateLocation ::
  "(string \<Rightarrow> string) \<Rightarrow> DB \<Rightarrow> Location \<Rightarrow> (CError + Location) \<times> DB" where
  "LocationRepository_CreateLocation slug_Make db location =
     (case insert_returning db (Name location) (slug_Make (Name location))
             (Latitude location) (Longitude location) of
        (Inl err, db') \<Rightarrow>
          if ErrorCode err = ''23505'' then (Inl ErrConflictingData, db')
          else (Inl (NewInternalCError (Error err)), db')
      | (Inr row, db') \<Rightarrow> (Inr row, db'))"

definition scan_one :: "pgx_error + 'a \<Rightarrow> CError + 'a" where
  "scan_one res =
     (case res of
        Inl err \<Rightarrow> if err = ErrNoRows then Inl ErrDataNotFound
                   else Inl (NewInternalCError (Error err))
      | Inr row \<Rightarrow> Inr row)"

definition LocationRepository_GetLocationByID :: "DB \<Rightarrow> string \<Rightarrow> CError + Location" where
  "LocationRepository_GetLocationByID db id' =
     scan_one (select_one db (\<lambda>r. ID r = id'))"

definition LocationRepository_GetLocationByName ::
  "(string \<Rightarrow> string) \<Rightarrow> DB \<Rightarrow> string \<Rightarrow> CError + Location" where
  "LocationRepository_GetLocationByName slug_Make db name =
     scan_one (select_one db (\<lambda>r. Name r = name \<or> Slug r = slug_Make name))"

definition LocationRepository_ListLocations :: "DB \<Rightarrow> CError + Location slice" where
  "LocationRepository_ListLocations db =
     Inr (foldl append_slice nil_slice (select_ordered db))"

definition LocationRepository_DeleteLocation ::
  "(string \<Rightarrow> string) \<Rightarrow> DB \<Rightarrow> string \<Rightarrow> CError option \<times> DB" where
  "LocationRepository_DeleteLocation slug_Make db name =
     (None, delete_where db (\<lambda>r. Name r = name \<or> Slug r = slug_Make name))"

definition LocationRepository_GetNearestLocation ::
  "(geography \<Rightarrow> geography \<Rightarrow> meters) \<Rightarrow> DB \<Rightarrow> real \<Rightarrow> real \<Rightarrow> CError + NearestLocation" where
  "LocationRepository_GetNearestLocation ST_Distance db latitude longitude =
     scan_one (select_nearest ST_Distance db longitude latitude)"

text \<open>The interface \<^verbatim>\<open>port.LocationRepository\<close>, over any store state.\<close>

record 'db LocationRepository =
  CreateLocation :: "'db \<Rightarrow> Location \<Rightarrow> (CError + Location) \<times> 'db"
  GetLocationByID :: "'db \<Rightarrow> string \<Rightarrow> CError + Location"
  GetLocationByName :: "'db \<Rightarrow> string \<Rightarrow> CError + Location"
  ListLocations :: "'db \<Rightarrow> CError + Location slice"
  DeleteLocation :: "'db \<Rightarrow> string \<Rightarrow> CError option \<times> 'db"
  GetNearestLocation :: "'db \<Rightarrow> real \<Rightarrow> real \<Rightarrow> CError + NearestLocation"

definition NewLocationRepository ::
  "(string \<Rightarrow> string) \<Rightarrow> (geography \<Rightarrow> geography \<Rightarrow> meters) \<Rightarrow> DB LocationRepository" where
  "NewLocationRepository slug_Make ST_Distance =
     \<lparr>CreateLocation = LocationRepository_CreateLocation slug_Make,
      GetLocationByID = LocationRepository_GetLocationByID,
      GetLocationByName = LocationRepository_GetLocationByName slug_Make,
      ListLocations = LocationRepository_ListLocations,
      DeleteLocation = LocationRepository_DeleteLocation slug_Make,
      GetNearestLocation = LocationRepository_GetNearestLocation ST_Distance\<rparr>"

section \<open>The service (internal/core/service/location.go)\<close>

definition LocationService_RegisterLocation ::
  "'db LocationRepository \<Rightarrow> 'db \<Rightarrow> RegisterLocationRequest \<Rightarrow> (CError + Location) \<times> 'db" where
  "LocationService_RegisterLocation repo db location =
     (let locationToCreate = \<lparr>ID = [], Name = req_Name location, Slug = [],
                               Latitude = req_Latitude location,
                               Longitude = req_Longitude location, CreatedAt = 0\<rparr>
      in case CreateLocation repo db locationToCreate of
           (Inl cerr, db') \<Rightarrow>
             if Code cerr = 409 then (Inl (NewCError (Code cerr) ''location already exists''), db')
             else (Inl ErrInternal, db')
         | (Inr locationResponse, db') \<Rightarrow> (Inr locationResponse, db'))"

definition LocationService_GetLocation ::
  "'db LocationRepository \<Rightarrow> 'db \<Rightarrow> string \<Rightarrow> CError + Location" where
  "LocationService_GetLocation repo db name =
     (case GetLocationByName repo db name of
        Inl cerr \<Rightarrow> if Code cerr = 500 then Inl ErrInternal else Inl cerr
      | Inr location \<Rightarrow> Inr location)"

definition LocationService_ListLocations ::
  "'db LocationRepository \<Rightarrow> 'db \<Rightarrow> CError + Location slice" where
  "LocationService_ListLocations repo db =
     (case ListLocations repo db of
        Inl cerr \<Rightarrow> Inl ErrInternal
      | Inr locations' \<Rightarrow> Inr locations')"

definition LocationService_DeleteLocation ::
  "'db LocationRepository \<Rightarrow> 'db \<Rightarrow> string \<Rightarrow> CError option \<times> 'db" where
  "LocationService_DeleteLocation repo db name =
     (case DeleteLocation repo db name of
        (Some cerr, db') \<Rightarrow> if Code cerr = 500 then (Some ErrInternal, db') else (Some cerr, db')
      | (None, db') \<Rightarrow> (None, db'))"

definition LocationService_GetNearestLocation ::
  "'db LocationRepository \<Rightarrow> 'db \<Rightarrow> real \<Rightarrow> real \<Rightarrow> CError + NearestLocation" where
  "LocationService_GetNearestLocation repo db latitude longitude =
     (case GetNearestLocation repo db latitude longitude of
        Inl cerr \<Rightarrow> if Code cerr = 404 then Inl (NewCError (Code cerr) ''no location found'')
                    else Inl ErrInternal
      | Inr nearestLocation \<Rightarrow> Inr nearestLocation)"

section \<open>The HTTP handler for registration (handler/http)\<close>

text \<open>
  The tags of \<^verbatim>\<open>RegisterLocationRequest\<close> are \<^verbatim>\<open>required\<close> on \<^verbatim>\<open>Name\<close>,
  \<^verbatim>\<open>required,min=-90,max=90\<close> on \<^verbatim>\<open>Latitude\<close> and \<^verbatim>\<open>required,min=-180,max=180\<close> on
  \<^verbatim>\<open>Longitude\<close>. They are read as github.com/go-playground/validator/v10 documents
  them: \<^verbatim>\<open>required\<close> holds when the value is not the zero value of its type (the empty
  string, the number 0), \<^verbatim>\<open>min\<close> and \<^verbatim>\<open>max\<close> compare a number with the bound; the
  fields are visited in declaration order, the tags of a field in the order written,
  and the first failing tag of each field is reported with the field's name.
\<close>

definition validate_float :: "string \<Rightarrow> real \<Rightarrow> real \<Rightarrow> real \<Rightarrow> (string \<times> string) list" where
  "validate_float field lo hi v =
     (if v = 0 then [(field, ''required'')]
      else if v < lo then [(field, ''min'')]
      else if hi < v then [(field, ''max'')]
      else [])"

definition validate_Struct :: "RegisterLocationRequest \<Rightarrow> (string \<times> string) list" where
  "validate_Struct req =
     (if req_Name req = [] then [(''Name'', ''required'')] else [])
     @ validate_float ''Latitude'' (- 90) 90 (req_Latitude req)
     @ validate_float ''Longitude'' (- 180) 180 (req_Longitude req)"

text \<open>
  The handler ends by calling one of the package's response helpers, which are not
  under src/; the response is recorded as the helper called and its arguments.
\<close>

datatype response =
    handleError CError
  | validationError "(string \<times> string) list"
  | handleSuccessWithMessage int Location string

text \<open>
  \<^verbatim>\<open>LocationHandler.RegisterLocation\<close>; the body is what the JSON decoder made of the
  request, \<open>None\<close> when decoding failed.
\<close>

definition LocationHandler_RegisterLocation ::
  "'db LocationRepository \<Rightarrow> 'db \<Rightarrow> RegisterLocationRequest option \<Rightarrow> response \<times> 'db" where
  "LocationHandler_RegisterLocation repo db body =
     (case body of
        None \<Rightarrow> (handleError ErrInternal, db)
      | Some req \<Rightarrow>
          if validate_Struct req \<noteq> [] then (validationError (validate_Struct req), db)
          else (case LocationService_RegisterLocation repo db req of
                  (Inl cerr, db') \<Rightarrow> (handleError cerr, db')
                | (Inr result, db') \<Rightarrow>
                    (handleSuccessWithMessage 201 result ''Location created successfully'',
                     db')))"

section \<open>Distance presentation (\<^verbatim>\<open>NearestLocation.MarshalJSON\<close>)\<close>

text \<open>
  The anonymous struct handed to \<^verbatim>\<open>json.Marshal\<close>: the location and the distance as
  text. The verb \<^verbatim>\<open>%.2f\<close> of \<^verbatim>\<open>fmt.Sprintf\<close> is the parameter \<open>Sprintf_2f\<close>.
\<close>

record NearestLocation_json =
  json_Location :: Location
  json_distance :: string

definition NearestLocation_MarshalJSON ::
  "(real \<Rightarrow> string) \<Rightarrow> NearestLocation \<Rightarrow> NearestLocation_json" where
  "NearestLocation_MarshalJSON Sprintf_2f n =
     (let distance = Sprintf_2f (Distance n) @ '' meters'';
          distance = (if Distance n \<ge> 1000
                      then Sprintf_2f (Distance n / 1000) @ '' kilometers''
                      else distance)
      in \<lparr>json_Location = Location n, json_distance = distance\<rparr>)"

section \<open>The slug normalizer\<close>

text \<open>
  Modelled from the spec: \<^verbatim>\<open>slug.Make\<close> belongs to github.com/gosimple/slug and is not
  under src/. The spec's contract for it: it lowercases, replaces runs of
  whitespace/punctuation with a single hyphen, and trims leading and trailing hyphens.
  A character that is neither a letter nor a digit counts as whitespace/punctuation.
\<close>

definition uppercase :: string where
  "uppercase = ''ABCDEFGHIJKLMNOPQRSTUVWXYZ''"

definition lowercase :: string where
  "lowercase = ''abcdefghijklmnopqrstuvwxyz''"

definition digits :: string where
  "digits = ''0123456789''"

definition to_lower :: "char \<Rightarrow> char" where
  "to_lower c = (case map_of (zip uppercase lowercase) c of Some l \<Rightarrow> l | None \<Rightarrow> c)"

definition is_alnum :: "char \<Rightarrow> bool" where
  "is_alnum c = (c \<in> set lowercase \<or> c \<in> set uppercase \<or> c \<in> set digits)"

function hyphenate :: "string \<Rightarrow> string" where
  "hyphenate [] = []"
| "hyphenate (c # cs) =
     (if is_alnum c then c # hyphenate cs
      else CHR ''-'' # hyphenate (dropWhile (\<lambda>d. \<not> is_alnum d) cs))"
  by pat_completeness auto
termination
  by (relation "measure length") (auto simp: le_imp_less_Suc length_dropWhile_le)

definition trim_hyphens :: "string \<Rightarrow> string" where
  "trim_hyphens s =
     rev (dropWhile (\<lambda>c. c = CHR ''-'') (rev (dropWhile (\<lambda>c. c = CHR ''-'') s)))"

definition slugify :: "string \<Rightarrow> string" where
  "slugify name = trim_hyphens (hyphenate (map to_lower name))"

text \<open>
  A string is separated when each of its characters is a letter, a digit or a hyphen and
  no two hyphens are adjacent.
\<close>

definition separated :: "string \<Rightarrow> bool" where
  "separated t =
     ((\<forall>c \<in> set t. is_alnum c \<or> c = CHR ''-'')
      \<and> (\<nexists>u v. t = u @ CHR ''-'' # CHR ''-'' # v))"

section \<open>Stores that the repository can produce\<close>

text \<open>
  The table starts empty and changes only through the repository's
  \<^verbatim>\<open>CreateLocation\<close> and \<^verbatim>\<open>DeleteLocation\<close>.
\<close>

inductive reachable :: "(string \<Rightarrow> string) \<Rightarrow> DB \<Rightarrow> bool" for slug_Make where
  empty: "locations db = [] \<Longrightarrow> reachable slug_Make db"
| create: "reachable slug_Make db \<Longrightarrow>
           reachable slug_Make (snd (LocationRepository_CreateLocation slug_Make db location))"
| delete: "reachable slug_Make db \<Longrightarrow>
           reachable slug_Make (snd (LocationRepository_DeleteLocation slug_Make db name))"

section \<open>Values for the examples\<close>

text \<open>
  A store with no rows whose n-th INSERT draws the id \<open>loc-i...i\<close> (n letters) and the
  timestamp \<open>1000 + n\<close>; the taxicab distance on degrees stands in for the engine's
  \<^verbatim>\<open>ST_Distance\<close>.
\<close>

definition example_DB :: DB where
  "example_DB = \<lparr>locations = [],
                  defaults = (\<lambda>n. (''loc-'' @ replicate n CHR ''i'', 1000 + int n)),
                  drawn = 0\<rparr>"

definition taxicab :: "geography \<Rightarrow> geography \<Rightarrow> meters" where
  "taxicab p q = Meters (\<bar>fst p - fst q\<bar> + \<bar>snd p - snd q\<bar>)"

text \<open>
  Two decimals of a real number, a tie going to the even neighbour, as \<^verbatim>\<open>%.2f\<close> renders
  the exact value of a \<^verbatim>\<open>float64\<close>. It is the instance of \<open>Sprintf_2f\<close> in the examples
  only: Go rounds the quotient \<^verbatim>\<open>n.Distance/1000\<close> to a \<^verbatim>\<open>float64\<close> before it is
  rendered, and no statement below depends on how.
\<close>

definition round_half_even :: "real \<Rightarrow> int" where
  "round_half_even x =
     (let f = \<lfloor>x\<rfloor>; d = x - of_int f
      in if d < 1 / 2 then f else if 1 / 2 < d then f + 1
         else if even f then f else f + 1)"

fun decimal :: "nat \<Rightarrow> string" where
  "decimal n = (if n < 10 then [digits ! n] else decimal (n div 10) @ [digits ! (n mod 10)])"

definition two_decimals :: "real \<Rightarrow> string" where
  "two_decimals x =
     (let c = nat (round_half_even (\<bar>x\<bar> * 100))
      in (if x < 0 then ''-'' else []) @ decimal (c div 100) @ ''.''
         @ [digits ! ((c div 10) mod 10), digits ! (c mod 10)])"

definition example_repo :: "DB LocationRepository" where
  "example_repo = NewLocationRepository slugify taxicab"

definition after_register :: "DB \<Rightarrow> RegisterLocationRequest \<Rightarrow> DB" where
  "after_register db req = snd (LocationService_RegisterLocation example_repo db req)"

section \<open>Nearest location on an empty store\<close>

text \<open>
  C5: on an empty table the repository's nearest-location query signals the not-found
  error (code 404), and the service answers with an error of that same code whose
  message is "no location found".
\<close>

theorem nearest_on_empty_store:
  "LocationRepository_GetNearestLocation ST_Distance (db\<lparr>locations := []\<rparr>) latitude longitude
     = Inl ErrDataNotFound
   \<and> LocationService_GetNearestLocation (NewLocationRepository slug_Make ST_Distance)
       (db\<lparr>locations := []\<rparr>) latitude longitude
     = Inl (NewCError (Code ErrDataNotFound) ''no location found'')
   \<and> Code ErrDataNotFound = 404"
  by (simp add: LocationService_GetNearestLocation_def NewLocationRepository_def
      LocationRepository_GetNearestLocation_def scan_one_def select_nearest_def)

section \<open>Creating locations\<close>

lemma CreateLocation_result:
  "LocationRepository_CreateLocation slug_Make db location =
     (let r = \<lparr>ID = fst (defaults db (drawn db)), Name = Name location,
                Slug = slug_Make (Name location), Latitude = Latitude location,
                Longitude = Longitude location, CreatedAt = snd (defaults db (drawn db))\<rparr>
      in if violates_unique (locations db) r
         then (Inl ErrConflictingData, db\<lparr>drawn := Suc (drawn db)\<rparr>)
         else (Inr r, db\<lparr>drawn := Suc (drawn db),
                 locations := locations db @
                   [\<lparr>columns = r, geo = ST_MakePoint (Longitude location) (Latitude location)\<rparr>]\<rparr>))"
  by (simp add: LocationRepository_CreateLocation_def insert_returning_def Let_def
      split: prod.splits)

lemma RegisterLocation_result:
  "LocationService_RegisterLocation (NewLocationRepository slug_Make ST_Distance) db req =
     (let r = \<lparr>ID = fst (defaults db (drawn db)), Name = req_Name req,
                Slug = slug_Make (req_Name req), Latitude = req_Latitude req,
                Longitude = req_Longitude req, CreatedAt = snd (defaults db (drawn db))\<rparr>
      in if violates_unique (locations db) r
         then (Inl (NewCError 409 ''location already exists''), db\<lparr>drawn := Suc (drawn db)\<rparr>)
         else (Inr r, db\<lparr>drawn := Suc (drawn db),
                 locations := locations db @
                   [\<lparr>columns = r, geo = ST_MakePoint (req_Longitude req) (req_Latitude req)\<rparr>]\<rparr>))"
  by (simp add: LocationService_RegisterLocation_def NewLocationRepository_def
      CreateLocation_result Let_def)

lemma RegisterLocation_success:
  assumes "LocationService_RegisterLocation (NewLocationRepository slug_Make ST_Distance)
             db req = (Inr l, db')"
  shows "l = \<lparr>ID = fst (defaults db (drawn db)), Name = req_Name req,
              Slug = slug_Make (req_Name req), Latitude = req_Latitude req,
              Longitude = req_Longitude req, CreatedAt = snd (defaults db (drawn db))\<rparr>"
    and "\<not> violates_unique (locations db) l"
    and "db' = db\<lparr>drawn := Suc (drawn db),
                   locations := locations db @
                     [\<lparr>columns = l,
                       geo = ST_MakePoint (req_Longitude req) (req_Latitude req)\<rparr>]\<rparr>"
  using assms by (auto simp: RegisterLocation_result Let_def split: if_splits)

lemmas slug_eval = slugify_def trim_hyphens_def to_lower_def is_alnum_def uppercase_def
  lowercase_def digits_def

lemmas example_eval = example_repo_def example_DB_def RegisterLocation_result
  violates_unique_def ST_MakePoint_def Let_def

text \<open>
  C3: once a registration has succeeded, registering the same name again (or a name
  with the same slug) is answered by the repository with the conflict error and by the
  service with an error of that same code, 409, whose message is
  "location already exists"; the table is left as it was.
\<close>

theorem register_twice_conflict:
  assumes first: "LocationService_RegisterLocation (NewLocationRepository slug_Make ST_Distance)
                    db req = (Inr l, db')"
      and same: "req_Name req' = req_Name req
                 \<or> slug_Make (req_Name req') = slug_Make (req_Name req)"
  shows "LocationService_RegisterLocation (NewLocationRepository slug_Make ST_Distance) db' req'
           = (Inl (NewCError (Code ErrConflictingData) ''location already exists''),
              db'\<lparr>drawn := Suc (drawn db')\<rparr>)
         \<and> Code ErrConflictingData = 409
         \<and> (\<forall>location. Name location = req_Name req' \<longrightarrow>
               LocationRepository_CreateLocation slug_Make db' location
                 = (Inl ErrConflictingData, db'\<lparr>drawn := Suc (drawn db')\<rparr>))"
proof -
  have slug: "slug_Make (req_Name req') = slug_Make (req_Name req)"
    using same by auto
  have "Slug l = slug_Make (req_Name req)"
    using RegisterLocation_success(1) [OF first] by simp
  then have viol: "violates_unique (locations db') r'"
    if "Slug r' = slug_Make (req_Name req)" for r'
    using that RegisterLocation_success(3) [OF first] by (simp add: violates_unique_def)
  show ?thesis
    by (simp add: RegisterLocation_result CreateLocation_result Let_def viol slug)
qed

text \<open>
  The duplicate registration of the handler test: the first call stores the row, the
  second is a conflict, and so is a different name with the same slug.
\<close>

theorem register_twice_conflict_witness:
  "fst (LocationService_RegisterLocation example_repo example_DB
          \<lparr>req_Name = ''Duplicate Test'', req_Latitude = 40.7128, req_Longitude = - 74.0060\<rparr>)
     = Inr \<lparr>ID = ''loc-'', Name = ''Duplicate Test'', Slug = ''duplicate-test'',
            Latitude = 40.7128, Longitude = - 74.0060, CreatedAt = 1000\<rparr>
   \<and> fst (LocationService_RegisterLocation example_repo
          (after_register example_DB
             \<lparr>req_Name = ''Duplicate Test'', req_Latitude = 40.7128,
               req_Longitude = - 74.0060\<rparr>)
          \<lparr>req_Name = ''Duplicate Test'', req_Latitude = 40.7128, req_Longitude = - 74.0060\<rparr>)
     = Inl (NewCError 409 ''location already exists'')
   \<and> fst (LocationService_RegisterLocation example_repo
          (after_register example_DB
             \<lparr>req_Name = ''Duplicate Test'', req_Latitude = 40.7128,
               req_Longitude = - 74.0060\<rparr>)
          \<lparr>req_Name = ''duplicate  test!'', req_Latitude = 1, req_Longitude = 2\<rparr>)
     = Inl (NewCError 409 ''location already exists'')"
proof -
  let ?req = "\<lparr>req_Name = ''Duplicate Test'', req_Latitude = 40.7128,
                req_Longitude = - 74.0060\<rparr>"
  let ?req2 = "\<lparr>req_Name = ''duplicate  test!'', req_Latitude = 1, req_Longitude = 2\<rparr>"
  let ?l = "\<lparr>ID = ''loc-'', Name = ''Duplicate Test'', Slug = ''duplicate-test'',
             Latitude = 40.7128, Longitude = - 74.0060, CreatedAt = 1000\<rparr>"
  have "fst (LocationService_RegisterLocation example_repo example_DB ?req) = Inr ?l"
    by (simp add: example_eval slug_eval)
  then have first:
    "LocationService_RegisterLocation (NewLocationRepository slugify taxicab) example_DB ?req
       = (Inr ?l, after_register example_DB ?req)"
    by (simp add: after_register_def example_repo_def prod_eq_iff)
  have s2: "slugify (req_Name ?req2) = slugify (req_Name ?req)"
    by (simp add: slug_eval)
  from register_twice_conflict [OF first, of ?req] register_twice_conflict [OF first, of ?req2]
    first s2
  show ?thesis by (simp add: example_repo_def)
qed

section \<open>Registering, then getting by name\<close>

lemma filter_eq_single: "distinct L \<Longrightarrow> l \<in> set L \<Longrightarrow> filter (\<lambda>r. r = l) L = [l]"
  by (induction L) (auto simp: filter_empty_conv)

lemma filter_single:
  assumes d: "distinct (map f L)" and l: "l \<in> set L" and c: "cond l"
    and u: "\<forall>r \<in> set L. cond r \<longrightarrow> f r = f l"
  shows "filter cond L = [l]"
proof -
  from d have inj: "inj_on f (set L)" and dl: "distinct L"
    by (simp_all add: distinct_map)
  have "cond r = (r = l)" if "r \<in> set L" for r
  proof
    assume "cond r"
    with u that have "f r = f l" by blast
    with inj that l show "r = l" by (simp add: inj_on_def)
  next
    assume "r = l"
    with c show "cond r" by simp
  qed
  then have "filter cond L = filter (\<lambda>r. r = l) L"
    by (intro filter_cong) simp_all
  with dl l show ?thesis by (simp add: filter_eq_single)
qed

lemma GetLocation_result:
  "LocationService_GetLocation (NewLocationRepository slug_Make ST_Distance) db name =
     (case filter (\<lambda>r. Name r = name \<or> Slug r = slug_Make name) (map columns (locations db)) of
        [] \<Rightarrow> Inl ErrDataNotFound
      | r # rest \<Rightarrow> Inr r)"
  by (simp add: LocationService_GetLocation_def NewLocationRepository_def
      LocationRepository_GetLocationByName_def scan_one_def select_one_def
      split: list.splits)

lemma GetLocation_found:
  assumes "filter (\<lambda>r. Name r = name \<or> Slug r = slug_Make name) (map columns (locations db))
           = [l]"
  shows "LocationService_GetLocation (NewLocationRepository slug_Make ST_Distance) db name
         = Inr l"
  using assms by (simp add: GetLocation_result)

lemma GetLocation_stable:
  assumes "LocationService_GetLocation (NewLocationRepository slug_Make ST_Distance) db key
           = Inr l"
  shows "LocationService_GetLocation (NewLocationRepository slug_Make ST_Distance)
           (snd (LocationService_RegisterLocation (NewLocationRepository slug_Make ST_Distance)
                   db req)) key
         = Inr l"
proof -
  let ?cond = "\<lambda>r. Name r = key \<or> Slug r = slug_Make key"
  from assms obtain rest where old: "filter ?cond (map columns (locations db)) = l # rest"
    by (auto simp: GetLocation_result split: list.splits)
  let ?db' = "snd (LocationService_RegisterLocation (NewLocationRepository slug_Make ST_Distance)
                     db req)"
  have "\<exists>new. locations ?db' = locations db @ new"
    by (simp add: RegisterLocation_result Let_def)
  then obtain new where "locations ?db' = locations db @ new" by blast
  then have "filter ?cond (map columns (locations ?db'))
             = l # rest @ filter ?cond (map columns new)"
    using old by simp
  then show ?thesis by (simp add: GetLocation_result)
qed

lemma GetLocation_stable_many:
  assumes "LocationService_GetLocation (NewLocationRepository slug_Make ST_Distance) db key
           = Inr l"
  shows "LocationService_GetLocation (NewLocationRepository slug_Make ST_Distance)
           (foldl (\<lambda>d r. snd (LocationService_RegisterLocation
                                 (NewLocationRepository slug_Make ST_Distance) d r)) db later) key
         = Inr l"
  using assms
proof (induction later arbitrary: db)
  case Nil
  then show ?case by simp
next
  case (Cons r later)
  from Cons.prems have "LocationService_GetLocation (NewLocationRepository slug_Make ST_Distance)
      (snd (LocationService_RegisterLocation (NewLocationRepository slug_Make ST_Distance) db r))
      key = Inr l"
    by (rule GetLocation_stable)
  then show ?case using Cons.IH by simp
qed

text \<open>
  C6: after a successful registration, getting the location by the registered name
  returns the very location the registration returned; its name, latitude and longitude
  are those of the request, its slug is the slug of the name, and its id and creation
  time are the ones the store drew for this INSERT, the id being none of the ids already
  stored. The get is by its key: the registered name keeps returning this location
  after any further registrations, and a key that is neither the name of a stored row
  nor has the slug of one is answered with the not-found error.
\<close>

theorem register_then_get:
  assumes "LocationService_RegisterLocation (NewLocationRepository slug_Make ST_Distance)
             db req = (Inr l, db')"
  shows "LocationService_GetLocation (NewLocationRepository slug_Make ST_Distance) db'
           (req_Name req) = Inr l
         \<and> Name l = req_Name req \<and> Latitude l = req_Latitude req
         \<and> Longitude l = req_Longitude req \<and> Slug l = slug_Make (req_Name req)
         \<and> (ID l, CreatedAt l) = defaults db (drawn db)
         \<and> ID l \<notin> set (map (ID \<circ> columns) (locations db))
         \<and> (\<forall>later.
               LocationService_GetLocation (NewLocationRepository slug_Make ST_Distance)
                 (foldl (\<lambda>d r. snd (LocationService_RegisterLocation
                                       (NewLocationRepository slug_Make ST_Distance) d r))
                    db' later)
                 (req_Name req) = Inr l)
         \<and> (\<forall>key. (\<forall>x \<in> set (locations db').
                        Name (columns x) \<noteq> key \<and> Slug (columns x) \<noteq> slug_Make key)
                \<longrightarrow> LocationService_GetLocation
                      (NewLocationRepository slug_Make ST_Distance) db' key
                    = Inl ErrDataNotFound)"
proof -
  note s = RegisterLocation_success [OF assms]
  have fields: "Name l = req_Name req" "Slug l = slug_Make (req_Name req)"
    using s(1) by simp_all
  have old: "filter (\<lambda>r. Name r = req_Name req \<or> Slug r = slug_Make (req_Name req))
               (map columns (locations db)) = []"
    using s(2) fields by (auto simp: violates_unique_def filter_empty_conv)
  have "filter (\<lambda>r. Name r = req_Name req \<or> Slug r = slug_Make (req_Name req))
          (map columns (locations db')) = [l]"
    using old fields by (simp add: s(3))
  then have get: "LocationService_GetLocation (NewLocationRepository slug_Make ST_Distance) db'
               (req_Name req) = Inr l"
    by (rule GetLocation_found)
  have later: "\<forall>later.
      LocationService_GetLocation (NewLocationRepository slug_Make ST_Distance)
        (foldl (\<lambda>d r. snd (LocationService_RegisterLocation
                              (NewLocationRepository slug_Make ST_Distance) d r)) db' later)
        (req_Name req) = Inr l"
    using get by (intro allI) (rule GetLocation_stable_many)
  have absent: "\<forall>key. (\<forall>x \<in> set (locations db').
                        Name (columns x) \<noteq> key \<and> Slug (columns x) \<noteq> slug_Make key)
                \<longrightarrow> LocationService_GetLocation
                      (NewLocationRepository slug_Make ST_Distance) db' key
                    = Inl ErrDataNotFound"
  proof (intro allI impI)
    fix key
    assume "\<forall>x \<in> set (locations db').
              Name (columns x) \<noteq> key \<and> Slug (columns x) \<noteq> slug_Make key"
    then have "filter (\<lambda>r. Name r = key \<or> Slug r = slug_Make key)
                 (map columns (locations db')) = []"
      by (auto simp: filter_empty_conv)
    then show "LocationService_GetLocation
                 (NewLocationRepository slug_Make ST_Distance) db' key = Inl ErrDataNotFound"
      by (simp add: GetLocation_result)
  qed
  have fresh: "ID l \<notin> set (map (ID \<circ> columns) (locations db))"
    using s(2) by (auto simp: violates_unique_def)
  have drew: "(ID l, CreatedAt l) = defaults db (drawn db)"
    using s(1) by simp
  have coords: "Latitude l = req_Latitude req" "Longitude l = req_Longitude req"
    using s(1) by simp_all
  from get fields coords drew fresh later absent show ?thesis by blast
qed

text \<open>
  Three registrations. The first name is got from the store of all three (where its
  row is the first, not the last), the second name gives the second location, and a name
  never registered is not found.
\<close>

theorem register_then_get_witness:
  "fst (LocationService_RegisterLocation example_repo example_DB
          \<lparr>req_Name = ''Test Location'', req_Latitude = 40.7128, req_Longitude = - 74.0060\<rparr>)
     = Inr \<lparr>ID = ''loc-'', Name = ''Test Location'', Slug = ''test-location'',
            Latitude = 40.7128, Longitude = - 74.0060, CreatedAt = 1000\<rparr>
   \<and> LocationService_GetLocation example_repo
         (after_register (after_register (after_register example_DB
            \<lparr>req_Name = ''Test Location'', req_Latitude = 40.7128,
              req_Longitude = - 74.0060\<rparr>)
            \<lparr>req_Name = ''Location 2'', req_Latitude = 34.0522, req_Longitude = - 118.2437\<rparr>)
            \<lparr>req_Name = ''Location 3'', req_Latitude = 51.5074, req_Longitude = - 0.1278\<rparr>)
         ''Test Location''
     = Inr \<lparr>ID = ''loc-'', Name = ''Test Location'', Slug = ''test-location'',
            Latitude = 40.7128, Longitude = - 74.0060, CreatedAt = 1000\<rparr>
   \<and> LocationService_GetLocation example_repo
         (after_register (after_register (after_register example_DB
            \<lparr>req_Name = ''Test Location'', req_Latitude = 40.7128,
              req_Longitude = - 74.0060\<rparr>)
            \<lparr>req_Name = ''Location 2'', req_Latitude = 34.0522, req_Longitude = - 118.2437\<rparr>)
            \<lparr>req_Name = ''Location 3'', req_Latitude = 51.5074, req_Longitude = - 0.1278\<rparr>)
         ''Location 2''
     = Inr \<lparr>ID = ''loc-i'', Name = ''Location 2'', Slug = ''location-2'',
            Latitude = 34.0522, Longitude = - 118.2437, CreatedAt = 1001\<rparr>
   \<and> LocationService_GetLocation example_repo
         (after_register example_DB
            \<lparr>req_Name = ''Test Location'', req_Latitude = 40.7128,
              req_Longitude = - 74.0060\<rparr>)
         ''zzz''
     = Inl ErrDataNotFound"
proof -
  let ?r1 = "\<lparr>req_Name = ''Test Location'', req_Latitude = 40.7128,
               req_Longitude = - 74.0060\<rparr>"
  let ?r2 = "\<lparr>req_Name = ''Location 2'', req_Latitude = 34.0522, req_Longitude = - 118.2437\<rparr>"
  let ?r3 = "\<lparr>req_Name = ''Location 3'', req_Latitude = 51.5074, req_Longitude = - 0.1278\<rparr>"
  let ?l1 = "\<lparr>ID = ''loc-'', Name = ''Test Location'', Slug = ''test-location'',
             Latitude = 40.7128, Longitude = - 74.0060, CreatedAt = 1000\<rparr>"
  let ?l2 = "\<lparr>ID = ''loc-i'', Name = ''Location 2'', Slug = ''location-2'',
             Latitude = 34.0522, Longitude = - 118.2437, CreatedAt = 1001\<rparr>"
  let ?repo = "NewLocationRepository slugify taxicab"
  let ?db1 = "after_register example_DB ?r1"
  let ?db2 = "after_register ?db1 ?r2"
  let ?db3 = "after_register ?db2 ?r3"
  have f1: "fst (LocationService_RegisterLocation example_repo example_DB ?r1) = Inr ?l1"
    by (simp add: example_eval slug_eval)
  then have first: "LocationService_RegisterLocation ?repo example_DB ?r1 = (Inr ?l1, ?db1)"
    by (simp add: after_register_def example_repo_def prod_eq_iff)
  have "fst (LocationService_RegisterLocation example_repo ?db1 ?r2) = Inr ?l2"
    by (simp add: after_register_def example_eval slug_eval)
  then have second: "LocationService_RegisterLocation ?repo ?db1 ?r2 = (Inr ?l2, ?db2)"
    by (simp add: after_register_def example_repo_def prod_eq_iff)
  have after1: "foldl (\<lambda>d r. snd (LocationService_RegisterLocation ?repo d r)) ?db1 [?r2, ?r3]
                = ?db3"
    by (simp add: after_register_def example_repo_def)
  have after2: "foldl (\<lambda>d r. snd (LocationService_RegisterLocation ?repo d r)) ?db2 [?r3]
                = ?db3"
    by (simp add: after_register_def example_repo_def)
  have rows1: "locations ?db1 = [\<lparr>columns = ?l1, geo = (- 74.0060, 40.7128)\<rparr>]"
    by (simp add: after_register_def example_eval slug_eval)
  have zzz: "\<forall>x \<in> set (locations ?db1).
               Name (columns x) \<noteq> ''zzz'' \<and> Slug (columns x) \<noteq> slugify ''zzz''"
    unfolding rows1 by (simp add: slug_eval)
  note t1 = register_then_get [OF first]
  note t2 = register_then_get [OF second]
  from t1 have g1: "LocationService_GetLocation ?repo
      (foldl (\<lambda>d r. snd (LocationService_RegisterLocation ?repo d r)) ?db1 [?r2, ?r3])
      (req_Name ?r1) = Inr ?l1"
    by blast
  from t2 have g2: "LocationService_GetLocation ?repo
      (foldl (\<lambda>d r. snd (LocationService_RegisterLocation ?repo d r)) ?db2 [?r3])
      (req_Name ?r2) = Inr ?l2"
    by blast
  from t1 zzz have g3: "LocationService_GetLocation ?repo ?db1 ''zzz'' = Inl ErrDataNotFound"
    by blast
  from g1 have "LocationService_GetLocation ?repo ?db3 ''Test Location'' = Inr ?l1"
    unfolding after1 by simp
  moreover from g2 have "LocationService_GetLocation ?repo ?db3 ''Location 2'' = Inr ?l2"
    unfolding after2 by simp
  ultimately show ?thesis using f1 g3 by (simp add: example_repo_def)
qed

section \<open>The slug normalizer is idempotent\<close>

lemma hyphen_not_alnum [simp]: "\<not> is_alnum CHR ''-''"
  by (simp add: is_alnum_def uppercase_def lowercase_def digits_def)

lemma is_alnum_to_lower [simp]: "is_alnum (to_lower c) = is_alnum c"
  by (auto simp: is_alnum_def to_lower_def uppercase_def lowercase_def digits_def)

lemma to_lower_idem [simp]: "to_lower (to_lower c) = to_lower c"
  by (auto simp: to_lower_def uppercase_def lowercase_def)

lemma to_lower_hyphen [simp]: "to_lower CHR ''-'' = CHR ''-''"
  by (simp add: to_lower_def uppercase_def lowercase_def)

lemma hyphenate_map_to_lower:
  "hyphenate (map to_lower s) = map to_lower (hyphenate s)"
  by (induction s rule: hyphenate.induct) (auto simp: dropWhile_map comp_def)

lemma separated_Nil [simp]: "separated []"
  by (simp add: separated_def)

lemma separated_tl: "separated (c # cs) \<Longrightarrow> separated cs"
  unfolding separated_def
  by (metis append_Cons list.set_intros(2))

lemma separated_hyphen_next:
  assumes "separated (CHR ''-'' # cs)"
  shows "dropWhile (\<lambda>d. \<not> is_alnum d) cs = cs"
proof (cases cs)
  case Nil
  then show ?thesis by simp
next
  case (Cons d ds)
  have "d \<noteq> CHR ''-''"
    using assms unfolding separated_def Cons by (metis append_Nil)
  moreover have "is_alnum d \<or> d = CHR ''-''"
    using assms unfolding separated_def Cons by simp
  ultimately show ?thesis by (simp add: Cons)
qed

lemma hyphenate_separated: "separated t \<Longrightarrow> hyphenate t = t"
proof (induction t rule: hyphenate.induct)
  case 1
  then show ?case by simp
next
  case (2 c cs)
  show ?case
  proof (cases "is_alnum c")
    case True
    with 2 show ?thesis by (simp add: separated_tl)
  next
    case False
    with 2(3) have c: "c = CHR ''-''" by (simp add: separated_def)
    with 2(3) have keep: "dropWhile (\<lambda>d. \<not> is_alnum d) cs = cs"
      by (simp add: separated_hyphen_next)
    with 2 False c show ?thesis by (simp add: separated_tl)
  qed
qed

lemma hyphenate_keeps_head:
  "xs = [] \<or> is_alnum (hd xs) \<Longrightarrow> hyphenate xs = [] \<or> is_alnum (hd (hyphenate xs))"
  by (cases xs) auto

lemma hyphenate_head:
  "hyphenate (dropWhile (\<lambda>d. \<not> is_alnum d) cs) = [] \<or>
   is_alnum (hd (hyphenate (dropWhile (\<lambda>d. \<not> is_alnum d) cs)))"
proof (rule hyphenate_keeps_head)
  show "dropWhile (\<lambda>d. \<not> is_alnum d) cs = [] \<or>
        is_alnum (hd (dropWhile (\<lambda>d. \<not> is_alnum d) cs))"
    using hd_dropWhile [of "\<lambda>d. \<not> is_alnum d" cs] by blast
qed

lemma separated_hyphenate: "separated (hyphenate s)"
proof (induction s rule: hyphenate.induct)
  case 1
  then show ?case by simp
next
  case (2 c cs)
  show ?case
  proof (cases "is_alnum c")
    case True
    with 2 have ih: "separated (hyphenate cs)" by simp
    have "\<nexists>u v. c # hyphenate cs = u @ CHR ''-'' # CHR ''-'' # v"
    proof
      assume "\<exists>u v. c # hyphenate cs = u @ CHR ''-'' # CHR ''-'' # v"
      then obtain u v where e: "c # hyphenate cs = u @ CHR ''-'' # CHR ''-'' # v" by blast
      show False
      proof (cases u)
        case Nil
        with e True show False by simp
      next
        case (Cons a u')
        with e ih show False by (auto simp: separated_def)
      qed
    qed
    with ih True show ?thesis by (simp add: separated_def)
  next
    case False
    let ?r = "hyphenate (dropWhile (\<lambda>d. \<not> is_alnum d) cs)"
    from 2 False have ih: "separated ?r" by simp
    have "\<nexists>u v. CHR ''-'' # ?r = u @ CHR ''-'' # CHR ''-'' # v"
    proof
      assume "\<exists>u v. CHR ''-'' # ?r = u @ CHR ''-'' # CHR ''-'' # v"
      then obtain u v where e: "CHR ''-'' # ?r = u @ CHR ''-'' # CHR ''-'' # v" by blast
      show False
      proof (cases u)
        case Nil
        with e have "?r = CHR ''-'' # v" by simp
        with hyphenate_head [of cs] show False by simp
      next
        case (Cons a u')
        with e ih show False by (auto simp: separated_def)
      qed
    qed
    with ih False show ?thesis by (simp add: separated_def)
  qed
qed

lemma separated_dropWhile: "separated t \<Longrightarrow> separated (dropWhile P t)"
proof -
  assume s: "separated t"
  have t: "t = takeWhile P t @ dropWhile P t" by simp
  have "\<nexists>u v. dropWhile P t = u @ CHR ''-'' # CHR ''-'' # v"
  proof
    assume "\<exists>u v. dropWhile P t = u @ CHR ''-'' # CHR ''-'' # v"
    then obtain u v where "dropWhile P t = u @ CHR ''-'' # CHR ''-'' # v" by blast
    with t have "t = (takeWhile P t @ u) @ CHR ''-'' # CHR ''-'' # v" by simp
    with s show False unfolding separated_def by blast
  qed
  moreover have "\<forall>c \<in> set (dropWhile P t). is_alnum c \<or> c = CHR ''-''"
    using s by (auto simp: separated_def dest: set_dropWhileD)
  ultimately show ?thesis by (simp add: separated_def)
qed

lemma separated_rev: "separated t \<Longrightarrow> separated (rev t)"
proof -
  assume s: "separated t"
  have "\<nexists>u v. rev t = u @ CHR ''-'' # CHR ''-'' # v"
  proof
    assume "\<exists>u v. rev t = u @ CHR ''-'' # CHR ''-'' # v"
    then obtain u v where "rev t = u @ CHR ''-'' # CHR ''-'' # v" by blast
    then have "rev (rev t) = rev (u @ CHR ''-'' # CHR ''-'' # v)" by simp
    then have "t = rev v @ CHR ''-'' # CHR ''-'' # rev u" by simp
    with s show False unfolding separated_def by blast
  qed
  with s show ?thesis by (simp add: separated_def)
qed

lemma separated_trim: "separated t \<Longrightarrow> separated (trim_hyphens t)"
  by (simp add: trim_hyphens_def separated_rev separated_dropWhile)

lemma last_dropWhile:
  "dropWhile P xs \<noteq> [] \<Longrightarrow> last (dropWhile P xs) = last xs"
proof -
  assume a: "dropWhile P xs \<noteq> []"
  have "last xs = last (takeWhile P xs @ dropWhile P xs)" by simp
  also have "\<dots> = last (dropWhile P xs)" using a by (rule last_appendR)
  finally show ?thesis by simp
qed

lemma dropWhile_fixed: "xs = [] \<or> \<not> P (hd xs) \<Longrightarrow> dropWhile P xs = xs"
  by (cases xs) auto

lemma trim_idem:
  "rev (dropWhile h (rev (dropWhile h (rev (dropWhile h (rev (dropWhile h t)))))))
   = rev (dropWhile h (rev (dropWhile h t)))"
proof -
  let ?y = "dropWhile h t"
  let ?w = "dropWhile h (rev ?y)"
  have "rev ?w = [] \<or> \<not> h (hd (rev ?w))"
  proof (cases "?w = []")
    case True
    then show ?thesis by simp
  next
    case False
    then have "last ?w = last (rev ?y)" by (rule last_dropWhile)
    moreover have y: "?y \<noteq> []"
    proof
      assume "?y = []"
      then have "?w = []" by (simp only: rev.simps dropWhile.simps)
      with False show False by contradiction
    qed
    ultimately have "last ?w = hd ?y" by (simp add: last_rev)
    moreover have "\<not> h (hd ?y)" using y by (rule hd_dropWhile)
    ultimately show ?thesis using False by (simp add: hd_rev)
  qed
  then have "dropWhile h (rev ?w) = rev ?w" by (rule dropWhile_fixed)
  then show ?thesis by simp
qed

lemma trim_hyphens_idem: "trim_hyphens (trim_hyphens t) = trim_hyphens t"
  unfolding trim_hyphens_def by (rule trim_idem)

lemma trim_hyphens_map_to_lower:
  "trim_hyphens (map to_lower t) = map to_lower (trim_hyphens t)"
proof -
  have h: "(\<lambda>c. c = CHR ''-'') \<circ> to_lower = (\<lambda>c. c = CHR ''-'')"
    by (auto simp: fun_eq_iff to_lower_def uppercase_def lowercase_def)
  show ?thesis
    by (simp add: trim_hyphens_def dropWhile_map rev_map h)
qed

lemma slugify_fixed: "slugify (slugify x) = slugify x"
proof -
  let ?t = "trim_hyphens (hyphenate x)"
  have "separated ?t" by (simp add: separated_trim separated_hyphenate)
  then have fp: "hyphenate ?t = ?t" by (rule hyphenate_separated)
  have "slugify x = map to_lower ?t"
    by (simp add: slugify_def hyphenate_map_to_lower trim_hyphens_map_to_lower)
  moreover have "slugify (map to_lower ?t) = map to_lower ?t"
    by (simp add: slugify_def hyphenate_map_to_lower trim_hyphens_map_to_lower fp
        trim_hyphens_idem comp_def)
  ultimately show ?thesis by simp
qed

text \<open>
  C10: the slug normalizer is a function of its input alone, defined on every string,
  and applying it to one of its own results changes nothing; the result may be empty.
\<close>

theorem slugify_idempotent:
  "slugify (slugify x) = slugify x \<and> slugify [] = [] \<and> slugify ''?!'' = []"
  by (simp add: slugify_fixed) (simp add: slug_eval)

section \<open>Getting by slug\<close>

lemma reachable_invariant:
  assumes "reachable slug_Make db"
  shows "distinct (map (Slug \<circ> columns) (locations db))
         \<and> (\<forall>x \<in> set (locations db). Slug (columns x) = slug_Make (Name (columns x)))"
  using assms
proof (induction rule: reachable.induct)
  case (empty db)
  then show ?case by simp
next
  case (create db location)
  then show ?case
    by (auto simp: CreateLocation_result Let_def violates_unique_def)
next
  case (delete db name)
  then show ?case
    by (simp add: LocationRepository_DeleteLocation_def delete_where_def distinct_map_filter)
qed

text \<open>
  C7: in a store built by the repository, for every stored location, getting by the slug
  of its name returns the same location as getting by its name, namely that location;
  the key matches as a name or, after \<^verbatim>\<open>slug.Make\<close>, as a slug. The library's
  \<^verbatim>\<open>slug.Make\<close> is assumed idempotent.
\<close>

theorem get_by_slug_same_as_by_name:
  assumes r: "reachable slug_Make db"
      and x: "x \<in> set (locations db)"
      and idem: "\<forall>s. slug_Make (slug_Make s) = slug_Make s"
  shows "LocationService_GetLocation (NewLocationRepository slug_Make ST_Distance) db
           (slug_Make (Name (columns x)))
         = LocationService_GetLocation (NewLocationRepository slug_Make ST_Distance) db
             (Name (columns x))
         \<and> LocationService_GetLocation (NewLocationRepository slug_Make ST_Distance) db
             (Name (columns x)) = Inr (columns x)"
proof -
  let ?L = "map columns (locations db)"
  let ?l = "columns x"
  from reachable_invariant [OF r]
  have d: "distinct (map Slug ?L)"
    and sl: "\<And>r. r \<in> set ?L \<Longrightarrow> Slug r = slug_Make (Name r)"
    by auto
  have l: "?l \<in> set ?L" using x by simp
  have sx: "Slug ?l = slug_Make (Name ?l)" using sl l by blast
  have by_name: "filter (\<lambda>r. Name r = Name ?l \<or> Slug r = slug_Make (Name ?l)) ?L = [?l]"
  proof (rule filter_single [OF d l])
    show "Name ?l = Name ?l \<or> Slug ?l = slug_Make (Name ?l)" by simp
    show "\<forall>r \<in> set ?L. Name r = Name ?l \<or> Slug r = slug_Make (Name ?l) \<longrightarrow> Slug r = Slug ?l"
      using sl sx by metis
  qed
  have by_slug: "filter (\<lambda>r. Name r = slug_Make (Name ?l)
                          \<or> Slug r = slug_Make (slug_Make (Name ?l))) ?L = [?l]"
  proof (rule filter_single [OF d l])
    show "Name ?l = slug_Make (Name ?l) \<or> Slug ?l = slug_Make (slug_Make (Name ?l))"
      using sx idem by simp
    show "\<forall>r \<in> set ?L. Name r = slug_Make (Name ?l)
                          \<or> Slug r = slug_Make (slug_Make (Name ?l)) \<longrightarrow> Slug r = Slug ?l"
      using sl sx idem by metis
  qed
  have "LocationService_GetLocation (NewLocationRepository slug_Make ST_Distance) db
          (Name ?l) = Inr ?l"
    using by_name by (rule GetLocation_found)
  moreover have "LocationService_GetLocation (NewLocationRepository slug_Make ST_Distance) db
          (slug_Make (Name ?l)) = Inr ?l"
    using by_slug by (rule GetLocation_found)
  ultimately show ?thesis by simp
qed

text \<open>The location of the handler test, got by its slug and by its name.\<close>

theorem get_by_slug_same_as_by_name_witness:
  "reachable slugify
     (after_register example_DB
        \<lparr>req_Name = ''Get Test Location'', req_Latitude = 40.7128,
          req_Longitude = - 74.0060\<rparr>)
   \<and> LocationService_GetLocation example_repo
         (after_register example_DB
            \<lparr>req_Name = ''Get Test Location'', req_Latitude = 40.7128,
              req_Longitude = - 74.0060\<rparr>)
         ''get-test-location''
     = Inr \<lparr>ID = ''loc-'', Name = ''Get Test Location'', Slug = ''get-test-location'',
            Latitude = 40.7128, Longitude = - 74.0060, CreatedAt = 1000\<rparr>
   \<and> LocationService_GetLocation example_repo
         (after_register example_DB
            \<lparr>req_Name = ''Get Test Location'', req_Latitude = 40.7128,
              req_Longitude = - 74.0060\<rparr>)
         ''Get Test Location''
     = Inr \<lparr>ID = ''loc-'', Name = ''Get Test Location'', Slug = ''get-test-location'',
            Latitude = 40.7128, Longitude = - 74.0060, CreatedAt = 1000\<rparr>"
proof -
  let ?req = "\<lparr>req_Name = ''Get Test Location'', req_Latitude = 40.7128,
                req_Longitude = - 74.0060\<rparr>"
  let ?loc = "\<lparr>ID = [], Name = ''Get Test Location'', Slug = [], Latitude = 40.7128,
               Longitude = - 74.0060, CreatedAt = 0\<rparr>"
  let ?l = "\<lparr>ID = ''loc-'', Name = ''Get Test Location'', Slug = ''get-test-location'',
             Latitude = 40.7128, Longitude = - 74.0060, CreatedAt = 1000\<rparr>"
  let ?x = "\<lparr>columns = ?l, geo = ST_MakePoint (- 74.0060) 40.7128\<rparr>"
  let ?db = "after_register example_DB ?req"
  have db: "?db = snd (LocationRepository_CreateLocation slugify example_DB ?loc)"
    by (simp add: after_register_def example_repo_def LocationService_RegisterLocation_def
        NewLocationRepository_def split: prod.splits sum.splits)
  have "reachable slugify example_DB"
    by (rule reachable.empty) (simp add: example_DB_def)
  then have "reachable slugify (snd (LocationRepository_CreateLocation slugify example_DB ?loc))"
    by (rule reachable.create)
  then have r: "reachable slugify ?db" by (simp only: db)
  have s: "slugify ''Get Test Location'' = ''get-test-location''"
    by (simp add: slug_eval)
  have "?x \<in> set (locations (snd (LocationRepository_CreateLocation slugify example_DB ?loc)))"
    by (simp add: CreateLocation_result Let_def violates_unique_def example_DB_def s)
  then have x: "?x \<in> set (locations ?db)" by (simp only: db)
  have idem: "\<forall>s. slugify (slugify s) = slugify s"
    by (simp add: slugify_fixed)
  from get_by_slug_same_as_by_name [OF r x idem, of taxicab] r s
  show ?thesis by (simp add: example_repo_def)
qed

section \<open>Nearest location on a store with rows\<close>

lemma meters_value_nonneg: "0 \<le> meters_value m"
  using meters_value [of m] by simp

lemma meters_value_taxicab:
  "meters_value (taxicab p q) = \<bar>fst p - fst q\<bar> + \<bar>snd p - snd q\<bar>"
  by (simp add: taxicab_def Meters_inverse)

lemma GetNearestLocation_result:
  "LocationService_GetNearestLocation (NewLocationRepository slug_Make ST_Distance) db
     latitude longitude =
   (if locations db = [] then Inl (NewCError 404 ''no location found'')
    else Inr \<lparr>Location = columns (arg_min_list
                   (\<lambda>x. meters_value (ST_Distance (geo x) (ST_MakePoint longitude latitude)))
                   (locations db)),
               Distance = meters_value (ST_Distance (geo (arg_min_list
                   (\<lambda>x. meters_value (ST_Distance (geo x) (ST_MakePoint longitude latitude)))
                   (locations db)))
                 (ST_MakePoint longitude latitude))\<rparr>)"
  by (simp add: LocationService_GetNearestLocation_def NewLocationRepository_def
      LocationRepository_GetNearestLocation_def scan_one_def select_nearest_def Let_def)

text \<open>
  C4: on a store with rows, the nearest-location query returns a stored location whose
  distance from the query point (as \<^verbatim>\<open>ST_Distance\<close> computes it from the row's
  geography) is least among all rows, with that distance attached. After exactly one
  registration on an empty store, it returns that location at any query point, with
  the distance of its coordinates from the query point. Whatever the store and the
  query point, a distance returned is not negative.
\<close>

theorem nearest_is_minimal:
  "(locations db \<noteq> [] \<longrightarrow>
      (\<exists>x \<in> set (locations db).
         LocationService_GetNearestLocation (NewLocationRepository slug_Make ST_Distance) db
           latitude longitude
           = Inr \<lparr>Location = columns x,
                  Distance = meters_value (ST_Distance (geo x)
                                             (ST_MakePoint longitude latitude))\<rparr>
         \<and> (\<forall>y \<in> set (locations db).
               meters_value (ST_Distance (geo x) (ST_MakePoint longitude latitude))
               \<le> meters_value (ST_Distance (geo y) (ST_MakePoint longitude latitude)))))
   \<and> (LocationService_RegisterLocation (NewLocationRepository slug_Make ST_Distance)
         (db\<lparr>locations := []\<rparr>) req = (Inr l, db') \<longrightarrow>
       (\<exists>d. LocationService_GetNearestLocation (NewLocationRepository slug_Make ST_Distance)
              db' latitude longitude = Inr \<lparr>Location = l, Distance = d\<rparr>
            \<and> d = meters_value (ST_Distance (ST_MakePoint (Longitude l) (Latitude l))
                                   (ST_MakePoint longitude latitude))
            \<and> 0 \<le> d))
   \<and> (\<forall>n. LocationService_GetNearestLocation (NewLocationRepository slug_Make ST_Distance)
             db latitude longitude = Inr n \<longrightarrow> 0 \<le> Distance n)"
proof (intro conjI impI allI)
  let ?d = "\<lambda>x. meters_value (ST_Distance (geo x) (ST_MakePoint longitude latitude))"
  assume ne: "locations db \<noteq> []"
  let ?x = "arg_min_list ?d (locations db)"
  have "?x \<in> set (locations db)" using ne by (rule arg_min_list_in)
  moreover have "?d ?x \<le> ?d y" if "y \<in> set (locations db)" for y
  proof -
    have "?d ?x = Min (?d ` set (locations db))" using ne by (rule f_arg_min_list_f)
    also have "\<dots> \<le> ?d y" using that by simp
    finally show ?thesis .
  qed
  moreover have "LocationService_GetNearestLocation
      (NewLocationRepository slug_Make ST_Distance) db latitude longitude
      = Inr \<lparr>Location = columns ?x, Distance = ?d ?x\<rparr>"
    using ne by (simp add: GetNearestLocation_result)
  ultimately show "\<exists>x \<in> set (locations db).
         LocationService_GetNearestLocation (NewLocationRepository slug_Make ST_Distance) db
           latitude longitude = Inr \<lparr>Location = columns x, Distance = ?d x\<rparr>
         \<and> (\<forall>y \<in> set (locations db). ?d x \<le> ?d y)"
    by blast
next
  assume reg: "LocationService_RegisterLocation (NewLocationRepository slug_Make ST_Distance)
         (db\<lparr>locations := []\<rparr>) req = (Inr l, db')"
  note s = RegisterLocation_success [OF reg]
  have rows: "locations db' = [\<lparr>columns = l,
      geo = ST_MakePoint (req_Longitude req) (req_Latitude req)\<rparr>]"
    by (simp add: s(3))
  have "Longitude l = req_Longitude req" "Latitude l = req_Latitude req"
    using s(1) by simp_all
  then have "LocationService_GetNearestLocation (NewLocationRepository slug_Make ST_Distance)
         db' latitude longitude
         = Inr \<lparr>Location = l,
                Distance = meters_value (ST_Distance (ST_MakePoint (Longitude l) (Latitude l))
                             (ST_MakePoint longitude latitude))\<rparr>"
    by (simp add: GetNearestLocation_result rows)
  then show "\<exists>d. LocationService_GetNearestLocation
                (NewLocationRepository slug_Make ST_Distance) db' latitude longitude
                = Inr \<lparr>Location = l, Distance = d\<rparr>
            \<and> d = meters_value (ST_Distance (ST_MakePoint (Longitude l) (Latitude l))
                                   (ST_MakePoint longitude latitude))
            \<and> 0 \<le> d"
    by (simp add: meters_value_nonneg)
next
  fix n
  assume "LocationService_GetNearestLocation (NewLocationRepository slug_Make ST_Distance)
             db latitude longitude = Inr n"
  then show "0 \<le> Distance n"
    by (auto simp: GetNearestLocation_result meters_value_nonneg split: if_splits)
qed

text \<open>
  New York and Los Angeles, queried near Times Square, and New York alone queried from
  Los Angeles (distances in degrees of taxicab distance).
\<close>

theorem nearest_is_minimal_witness:
  "locations (after_register (after_register example_DB
       \<lparr>req_Name = ''New York'', req_Latitude = 40.7128, req_Longitude = - 74.0060\<rparr>)
       \<lparr>req_Name = ''Los Angeles'', req_Latitude = 34.0522, req_Longitude = - 118.2437\<rparr>)
     \<noteq> []
   \<and> LocationService_GetNearestLocation example_repo
       (after_register (after_register example_DB
          \<lparr>req_Name = ''New York'', req_Latitude = 40.7128, req_Longitude = - 74.0060\<rparr>)
          \<lparr>req_Name = ''Los Angeles'', req_Latitude = 34.0522, req_Longitude = - 118.2437\<rparr>)
       40.7589 (- 73.9851)
     = Inr \<lparr>Location = \<lparr>ID = ''loc-'', Name = ''New York'', Slug = ''new-york'',
                          Latitude = 40.7128, Longitude = - 74.0060, CreatedAt = 1000\<rparr>,
            Distance = 0.067\<rparr>
   \<and> LocationService_GetNearestLocation example_repo
       (after_register example_DB
          \<lparr>req_Name = ''New York'', req_Latitude = 40.7128, req_Longitude = - 74.0060\<rparr>)
       34.0522 (- 118.2437)
     = Inr \<lparr>Location = \<lparr>ID = ''loc-'', Name = ''New York'', Slug = ''new-york'',
                          Latitude = 40.7128, Longitude = - 74.0060, CreatedAt = 1000\<rparr>,
            Distance = 50.8983\<rparr>
   \<and> (0::real) \<le> 50.8983"
proof -
  let ?ny = "\<lparr>req_Name = ''New York'', req_Latitude = 40.7128, req_Longitude = - 74.0060\<rparr>"
  let ?la = "\<lparr>req_Name = ''Los Angeles'', req_Latitude = 34.0522,
               req_Longitude = - 118.2437\<rparr>"
  let ?l1 = "\<lparr>ID = ''loc-'', Name = ''New York'', Slug = ''new-york'',
              Latitude = 40.7128, Longitude = - 74.0060, CreatedAt = 1000\<rparr>"
  let ?l2 = "\<lparr>ID = ''loc-i'', Name = ''Los Angeles'', Slug = ''los-angeles'',
              Latitude = 34.0522, Longitude = - 118.2437, CreatedAt = 1001\<rparr>"
  let ?x1 = "\<lparr>columns = ?l1, geo = (- 74.0060, 40.7128)\<rparr>"
  let ?x2 = "\<lparr>columns = ?l2, geo = (- 118.2437, 34.0522)\<rparr>"
  let ?db1 = "after_register example_DB ?ny"
  let ?db2 = "after_register ?db1 ?la"
  let ?q = "ST_MakePoint (- 73.9851) 40.7589"
  let ?dist = "\<lambda>x. meters_value (taxicab (geo x) ?q)"
  have reg1: "LocationService_RegisterLocation (NewLocationRepository slugify taxicab)
                (example_DB\<lparr>locations := []\<rparr>) ?ny = (Inr ?l1, ?db1)"
    by (simp add: after_register_def example_eval slug_eval)
  have rows: "locations ?db2 = [?x1, ?x2]"
    by (simp add: after_register_def example_eval slug_eval)
  then have ne: "locations ?db2 \<noteq> []" by simp
  obtain d where one: "LocationService_GetNearestLocation
        (NewLocationRepository slugify taxicab) ?db1 34.0522 (- 118.2437)
        = Inr \<lparr>Location = ?l1, Distance = d\<rparr>"
    and d: "d = meters_value (taxicab (ST_MakePoint (Longitude ?l1) (Latitude ?l1))
                                (ST_MakePoint (- 118.2437) 34.0522))"
    and nonneg: "0 \<le> d"
    using nearest_is_minimal [of example_DB slugify taxicab "34.0522" "- 118.2437" ?ny
        ?l1 ?db1] reg1
    by blast
  have d': "d = 50.8983"
    unfolding d by (simp add: meters_value_taxicab ST_MakePoint_def)
  obtain x where x: "x \<in> set (locations ?db2)"
    and res: "LocationService_GetNearestLocation (NewLocationRepository slugify taxicab) ?db2
                40.7589 (- 73.9851) = Inr \<lparr>Location = columns x, Distance = ?dist x\<rparr>"
    and least: "\<forall>y \<in> set (locations ?db2). ?dist x \<le> ?dist y"
    using nearest_is_minimal [of ?db2 slugify taxicab "40.7589" "- 73.9851"] ne
    by blast
  have "?x1 \<in> set (locations ?db2)" unfolding rows by simp
  with least have "?dist x \<le> ?dist ?x1" by blast
  moreover have "?dist ?x2 > ?dist ?x1"
    by (simp add: meters_value_taxicab ST_MakePoint_def)
  moreover from x have "x = ?x1 \<or> x = ?x2" unfolding rows by simp
  ultimately have "x = ?x1" by auto
  with res have two: "LocationService_GetNearestLocation
      (NewLocationRepository slugify taxicab) ?db2 40.7589 (- 73.9851)
      = Inr \<lparr>Location = ?l1, Distance = 0.067\<rparr>"
    by (simp add: meters_value_taxicab ST_MakePoint_def)
  from ne one two nonneg show ?thesis by (simp add: example_repo_def d')
qed

section \<open>Listing locations\<close>

lemma foldl_append_slice: "foldl append_slice (Slice ys) xs = Slice (ys @ xs)"
  by (induction xs arbitrary: ys) simp_all

lemma foldl_append_slice_nil:
  "foldl append_slice nil_slice xs = (if xs = [] then nil_slice else Slice xs)"
  by (cases xs) (simp_all add: foldl_append_slice)

lemma sort_key_Nil_iff: "(sort_key f xs = []) = (xs = [])"
  by (metis set_empty set_sort)

lemma ListLocations_result:
  "LocationService_ListLocations (NewLocationRepository slug_Make ST_Distance) db =
     Inr (if locations db = [] then nil_slice
          else Slice (sort_key (\<lambda>r. - CreatedAt r) (map columns (locations db))))"
  by (simp add: LocationService_ListLocations_def NewLocationRepository_def
      LocationRepository_ListLocations_def select_ordered_def foldl_append_slice_nil sort_key_Nil_iff)

lemma newest_first_sort_key:
  "sorted_wrt (\<lambda>a b. CreatedAt b \<le> CreatedAt a) (sort_key (\<lambda>r. - CreatedAt r) xs)"
proof -
  have "sorted (map (\<lambda>r. - CreatedAt r) (sort_key (\<lambda>r. - CreatedAt r) xs))"
    by (rule sorted_sort_key)
  then show ?thesis by (simp add: sorted_map)
qed

text \<open>
  C8, as the code has it: listing never fails; the slice returned holds exactly the
  stored locations, ordered by creation time, newest first; it has as many elements as
  the table has rows, and it is the \<^verbatim>\<open>nil\<close> slice exactly when the table is empty.
\<close>

theorem list_newest_first:
  "\<exists>s. LocationService_ListLocations (NewLocationRepository slug_Make ST_Distance) db = Inr s
       \<and> mset (elems s) = mset (map columns (locations db))
       \<and> sorted_wrt (\<lambda>a b. CreatedAt b \<le> CreatedAt a) (elems s)
       \<and> (s = nil_slice) = (locations db = [])
       \<and> len s = length (locations db)"
proof (cases "locations db = []")
  case True
  then show ?thesis by (simp add: ListLocations_result len_def)
next
  case False
  let ?xs = "sort_key (\<lambda>r. - CreatedAt r) (map columns (locations db))"
  have "mset ?xs = mset (map columns (locations db))" by simp
  moreover have "sorted_wrt (\<lambda>a b. CreatedAt b \<le> CreatedAt a) ?xs"
    by (rule newest_first_sort_key)
  moreover have "length ?xs = length (locations db)" by simp
  ultimately show ?thesis using False by (simp add: ListLocations_result len_def)
qed

text \<open>
  On the empty store the loop over the rows never appends, and the slice declared by
  \<^verbatim>\<open>var locations []domain.Location\<close> is returned as it was declared: \<^verbatim>\<open>nil\<close>, not
  an allocated empty slice.
\<close>

theorem list_on_empty_store_is_nil:
  "LocationService_ListLocations example_repo example_DB = Inr nil_slice
   \<and> (nil_slice :: Location slice) \<noteq> Slice []"
  by (simp add: example_repo_def example_DB_def ListLocations_result)

text \<open>Two registrations, listed: the later one comes first.\<close>

theorem list_newest_first_witness:
  "LocationService_ListLocations example_repo
     (after_register (after_register example_DB
        \<lparr>req_Name = ''Location 1'', req_Latitude = 40.7128, req_Longitude = - 74.0060\<rparr>)
        \<lparr>req_Name = ''Location 2'', req_Latitude = 34.0522, req_Longitude = - 118.2437\<rparr>)
   = Inr (Slice
       [\<lparr>ID = ''loc-i'', Name = ''Location 2'', Slug = ''location-2'',
          Latitude = 34.0522, Longitude = - 118.2437, CreatedAt = 1001\<rparr>,
        \<lparr>ID = ''loc-'', Name = ''Location 1'', Slug = ''location-1'',
          Latitude = 40.7128, Longitude = - 74.0060, CreatedAt = 1000\<rparr>])"
proof -
  let ?db = "after_register (after_register example_DB
        \<lparr>req_Name = ''Location 1'', req_Latitude = 40.7128, req_Longitude = - 74.0060\<rparr>)
        \<lparr>req_Name = ''Location 2'', req_Latitude = 34.0522, req_Longitude = - 118.2437\<rparr>"
  let ?l1 = "\<lparr>ID = ''loc-'', Name = ''Location 1'', Slug = ''location-1'',
          Latitude = 40.7128, Longitude = - 74.0060, CreatedAt = 1000\<rparr>"
  let ?l2 = "\<lparr>ID = ''loc-i'', Name = ''Location 2'', Slug = ''location-2'',
          Latitude = 34.0522, Longitude = - 118.2437, CreatedAt = 1001\<rparr>"
  have rows: "map columns (locations ?db) = [?l1, ?l2]"
    by (simp add: after_register_def example_eval slug_eval)
  obtain s where s: "LocationService_ListLocations (NewLocationRepository slugify taxicab) ?db
      = Inr s"
    and m: "mset (elems s) = mset (map columns (locations ?db))"
    and o: "sorted_wrt (\<lambda>a b. CreatedAt b \<le> CreatedAt a) (elems s)"
    and n: "(s = nil_slice) = (locations ?db = [])"
    using list_newest_first [of slugify taxicab ?db] by blast
  from n rows obtain xs where xs: "s = Slice xs" by (cases s) auto
  from m have ms: "mset xs = mset [?l1, ?l2]" unfolding rows xs by simp
  then have "length xs = length [?l1, ?l2]" by (rule mset_eq_length)
  then obtain a b where ab: "xs = [a, b]"
    by (cases xs; cases "tl xs") auto
  from ms have "xs = [?l1, ?l2] \<or> xs = [?l2, ?l1]"
    unfolding ab by (auto simp: add_eq_conv_ex)
  moreover have "\<not> sorted_wrt (\<lambda>a b. CreatedAt b \<le> CreatedAt a) [?l1, ?l2]" by simp
  ultimately have "xs = [?l2, ?l1]" using o xs by auto
  with s xs show ?thesis by (simp add: example_repo_def)
qed

section \<open>Distance presentation\<close>

text \<open>
  C9: the distance is rendered as the two-decimal text of meters/1000 followed by
  " kilometers" when it is at least 1000 meters, and as the two-decimal text of the
  meters followed by " meters" otherwise; at exactly 1000 it is in kilometers. The
  location is passed on unchanged.
\<close>

theorem distance_presentation:
  "json_distance (NearestLocation_MarshalJSON Sprintf_2f n)
     = (if 1000 \<le> Distance n then Sprintf_2f (Distance n / 1000) @ '' kilometers''
        else Sprintf_2f (Distance n) @ '' meters'')
   \<and> json_distance (NearestLocation_MarshalJSON Sprintf_2f (n\<lparr>Distance := 1000\<rparr>))
     = Sprintf_2f 1 @ '' kilometers''
   \<and> json_Location (NearestLocation_MarshalJSON Sprintf_2f n) = Location n"
  by (simp add: NearestLocation_MarshalJSON_def Let_def)

text \<open>Above, at and below the threshold.\<close>

theorem distance_presentation_witness:
  "json_distance (NearestLocation_MarshalJSON two_decimals
       \<lparr>Location = \<lparr>ID = ''loc-'', Name = ''New York'', Slug = ''new-york'',
                     Latitude = 40.7128, Longitude = - 74.0060, CreatedAt = 1000\<rparr>,
        Distance = 1500.126\<rparr>)
     = ''1.50 kilometers''
   \<and> json_distance (NearestLocation_MarshalJSON two_decimals
       \<lparr>Location = \<lparr>ID = ''loc-'', Name = ''New York'', Slug = ''new-york'',
                     Latitude = 40.7128, Longitude = - 74.0060, CreatedAt = 1000\<rparr>,
        Distance = 1000\<rparr>)
     = ''1.00 kilometers''
   \<and> json_distance (NearestLocation_MarshalJSON two_decimals
       \<lparr>Location = \<lparr>ID = ''loc-'', Name = ''New York'', Slug = ''new-york'',
                     Latitude = 40.7128, Longitude = - 74.0060, CreatedAt = 1000\<rparr>,
        Distance = 999.994\<rparr>)
     = ''999.99 meters''"
proof -
  let ?l = "\<lparr>ID = ''loc-'', Name = ''New York'', Slug = ''new-york'',
             Latitude = 40.7128, Longitude = - 74.0060, CreatedAt = 1000\<rparr>"
  have a: "two_decimals (1500.126 / 1000) = ''1.50''"
    and b: "two_decimals 1 = ''1.00''"
    and c: "two_decimals 999.994 = ''999.99''"
    by (simp_all add: two_decimals_def round_half_even_def digits_def Let_def)
  from distance_presentation [of two_decimals "\<lparr>Location = ?l, Distance = 1500.126\<rparr>"]
    distance_presentation [of two_decimals "\<lparr>Location = ?l, Distance = 1000\<rparr>"]
    distance_presentation [of two_decimals "\<lparr>Location = ?l, Distance = 999.994\<rparr>"]
    a b c
  show ?thesis by simp
qed

section \<open>Validation of a registration\<close>

lemma handler_rejects:
  "validate_Struct req \<noteq> [] \<Longrightarrow>
   LocationHandler_RegisterLocation repo db (Some req) = (validationError (validate_Struct req), db)"
  by (simp add: LocationHandler_RegisterLocation_def)

lemma service_error_codes:
  "fst (LocationService_RegisterLocation repo db req) = Inl e \<Longrightarrow> Code e = 409 \<or> Code e = 500"
  by (auto simp: LocationService_RegisterLocation_def Let_def split: prod.splits sum.splits if_splits)

text \<open>
  C1, as the code has it: for a request whose latitude is outside [-90, 90], whose
  longitude is outside [-180, 180] or whose name is empty, the handler answers with the
  validation errors of the offending fields and calls neither the service nor the store
  (the answer is the same for every repository and the store is unchanged). The service
  validates nothing: what it answers besides a location is an error of code 409 or 500.
\<close>

theorem register_handler_validates:
  assumes "req_Latitude req < - 90 \<or> 90 < req_Latitude req
           \<or> req_Longitude req < - 180 \<or> 180 < req_Longitude req \<or> req_Name req = []"
  shows "LocationHandler_RegisterLocation repo db (Some req)
           = (validationError (validate_Struct req), db)
         \<and> validate_Struct req \<noteq> []
         \<and> (req_Name req = [] \<longrightarrow> (''Name'', ''required'') \<in> set (validate_Struct req))
         \<and> (req_Latitude req < - 90 \<longrightarrow> (''Latitude'', ''min'') \<in> set (validate_Struct req))
         \<and> (90 < req_Latitude req \<longrightarrow> (''Latitude'', ''max'') \<in> set (validate_Struct req))
         \<and> (req_Longitude req < - 180 \<longrightarrow> (''Longitude'', ''min'') \<in> set (validate_Struct req))
         \<and> (180 < req_Longitude req \<longrightarrow> (''Longitude'', ''max'') \<in> set (validate_Struct req))
         \<and> (\<forall>e. fst (LocationService_RegisterLocation repo db req) = Inl e
                \<longrightarrow> Code e = 409 \<or> Code e = 500)"
proof -
  have ne: "validate_Struct req \<noteq> []"
    using assms by (auto simp: validate_Struct_def validate_float_def)
  then have "LocationHandler_RegisterLocation repo db (Some req)
           = (validationError (validate_Struct req), db)"
    by (rule handler_rejects)
  moreover have "req_Name req = [] \<longrightarrow> (''Name'', ''required'') \<in> set (validate_Struct req)"
    by (simp add: validate_Struct_def)
  moreover have "req_Latitude req < - 90 \<longrightarrow> (''Latitude'', ''min'') \<in> set (validate_Struct req)"
    by (simp add: validate_Struct_def validate_float_def)
  moreover have "90 < req_Latitude req \<longrightarrow> (''Latitude'', ''max'') \<in> set (validate_Struct req)"
    by (simp add: validate_Struct_def validate_float_def)
  moreover have "req_Longitude req < - 180 \<longrightarrow> (''Longitude'', ''min'') \<in> set (validate_Struct req)"
    by (simp add: validate_Struct_def validate_float_def)
  moreover have "180 < req_Longitude req \<longrightarrow> (''Longitude'', ''max'') \<in> set (validate_Struct req)"
    by (simp add: validate_Struct_def validate_float_def)
  moreover have "\<forall>e. fst (LocationService_RegisterLocation repo db req) = Inl e
                \<longrightarrow> Code e = 409 \<or> Code e = 500"
    by (intro allI impI) (rule service_error_codes)
  ultimately show ?thesis using ne by blast
qed

text \<open>The request of the handler test with latitude 100.\<close>

theorem register_handler_validates_witness:
  "LocationHandler_RegisterLocation example_repo example_DB
     (Some \<lparr>req_Name = ''Invalid Location'', req_Latitude = 100.0, req_Longitude = - 74.0060\<rparr>)
   = (validationError [(''Latitude'', ''max'')], example_DB)"
proof -
  let ?req = "\<lparr>req_Name = ''Invalid Location'', req_Latitude = 100.0,
                req_Longitude = - 74.0060\<rparr>"
  have h: "req_Latitude ?req < - 90 \<or> 90 < req_Latitude ?req
           \<or> req_Longitude ?req < - 180 \<or> 180 < req_Longitude ?req \<or> req_Name ?req = []"
    by simp
  have "validate_Struct ?req = [(''Latitude'', ''max'')]"
    by (simp add: validate_Struct_def validate_float_def)
  with register_handler_validates [OF h, of example_repo example_DB] show ?thesis by simp
qed

text \<open>
  The same request given to the service: it reaches the store's \<^verbatim>\<open>CreateLocation\<close>,
  and the row with latitude 100 is stored and returned.
\<close>

theorem register_service_does_not_validate:
  "fst (LocationService_RegisterLocation example_repo example_DB
          \<lparr>req_Name = ''Invalid Location'', req_Latitude = 100.0, req_Longitude = - 74.0060\<rparr>)
     = Inr \<lparr>ID = ''loc-'', Name = ''Invalid Location'', Slug = ''invalid-location'',
            Latitude = 100.0, Longitude = - 74.0060, CreatedAt = 1000\<rparr>
   \<and> map columns (locations (after_register example_DB
          \<lparr>req_Name = ''Invalid Location'', req_Latitude = 100.0, req_Longitude = - 74.0060\<rparr>))
     = [\<lparr>ID = ''loc-'', Name = ''Invalid Location'', Slug = ''invalid-location'',
          Latitude = 100.0, Longitude = - 74.0060, CreatedAt = 1000\<rparr>]"
  by (simp add: after_register_def example_eval slug_eval)

text \<open>
  C2: a request whose latitude is 0 or whose longitude is 0 is answered by the handler
  with a validation error, the \<^verbatim>\<open>required\<close> tag of that coordinate failing; the
  service is not called.
\<close>

theorem register_rejects_zero_coordinates:
  assumes "req_Latitude req = 0 \<or> req_Longitude req = 0"
  shows "LocationHandler_RegisterLocation repo db (Some req)
           = (validationError (validate_Struct req), db)
         \<and> ((''Latitude'', ''required'') \<in> set (validate_Struct req)
            \<or> (''Longitude'', ''required'') \<in> set (validate_Struct req))"
proof -
  have m: "(''Latitude'', ''required'') \<in> set (validate_Struct req)
            \<or> (''Longitude'', ''required'') \<in> set (validate_Struct req)"
    using assms by (auto simp: validate_Struct_def validate_float_def)
  then have "validate_Struct req \<noteq> []" by auto
  then have "LocationHandler_RegisterLocation repo db (Some req)
           = (validationError (validate_Struct req), db)"
    by (rule handler_rejects)
  with m show ?thesis by simp
qed

text \<open>A point on the equator and a point on the prime meridian.\<close>

theorem register_rejects_zero_coordinates_witness:
  "LocationHandler_RegisterLocation example_repo example_DB
     (Some \<lparr>req_Name = ''Equator'', req_Latitude = 0, req_Longitude = 36.8\<rparr>)
   = (validationError [(''Latitude'', ''required'')], example_DB)
   \<and> LocationHandler_RegisterLocation example_repo example_DB
     (Some \<lparr>req_Name = ''Greenwich'', req_Latitude = 51.4779, req_Longitude = 0\<rparr>)
   = (validationError [(''Longitude'', ''required'')], example_DB)"
proof -
  let ?e = "\<lparr>req_Name = ''Equator'', req_Latitude = 0, req_Longitude = 36.8\<rparr>"
  let ?g = "\<lparr>req_Name = ''Greenwich'', req_Latitude = 51.4779, req_Longitude = 0\<rparr>"
  have he: "req_Latitude ?e = 0 \<or> req_Longitude ?e = 0" by simp
  have hg: "req_Latitude ?g = 0 \<or> req_Longitude ?g = 0" by simp
  have "validate_Struct ?e = [(''Latitude'', ''required'')]"
    and "validate_Struct ?g = [(''Longitude'', ''required'')]"
    by (simp_all add: validate_Struct_def validate_float_def)
  with register_rejects_zero_coordinates [OF he, of example_repo example_DB]
    register_rejects_zero_coordinates [OF hg, of example_repo example_DB]
  show ?thesis by simp
qed

end
